theory Spec2Isabelle
  imports Complex_Main
begin

section \<open>Values of a request body\<close>

text \<open>
  A request body is a JSON object. Its property values are modelled as the JSON scalars;
  a JavaScript number is an exact rational (no rounding, no infinities, no NaN). Arrays and
  nested objects as property values are outside the model. A property that is absent
  (\<open>undefined\<close> in the handler) is \<open>None\<close>.
\<close>

datatype json = JNull | JBool bool | JNum rat | JStr string

type_synonym body = "string \<Rightarrow> json option"

definition is_integer :: "rat \<Rightarrow> bool" where
  \<comment> \<open>\<open>Number.isInteger\<close>, \<open>!(data % 1)\<close>\<close>
  "is_integer q \<longleftrightarrow> of_int \<lfloor>q\<rfloor> = q"

subsection \<open>Numbers as text and text as numbers\<close>

definition digit_chars :: string where
  "digit_chars = ''0123456789''"

definition is_digit :: "char \<Rightarrow> bool" where
  \<comment> \<open>the character class \<open>\d\<close>\<close>
  "is_digit c \<longleftrightarrow> c \<in> set digit_chars"

definition digit_value :: "char \<Rightarrow> nat" where
  \<comment> \<open>the value of a digit character: its code minus the code of \<open>0\<close>\<close>
  "digit_value c = of_char c - of_char (CHR ''0'')"

definition digits_value :: "string \<Rightarrow> nat" where
  \<comment> \<open>the value of a run of decimal digits, most significant first\<close>
  "digits_value s = foldl (\<lambda>a c. 10 * a + digit_value c) 0 s"

fun nat_text :: "nat \<Rightarrow> string" where
  "nat_text n = (if n < 10 then [digit_chars ! n] else nat_text (n div 10) @ [digit_chars ! (n mod 10)])"

declare nat_text.simps [simp del]

fun fraction_text :: "nat \<Rightarrow> rat \<Rightarrow> string" where
  \<comment> \<open>the digits after the decimal point of a number in \<open>[0, 1)\<close>, at most the given count\<close>
  "fraction_text 0 q = []"
| "fraction_text (Suc k) q =
     (if q = 0 then []
      else digit_chars ! nat \<lfloor>10 * q\<rfloor> # fraction_text k (10 * q - of_int \<lfloor>10 * q\<rfloor>))"

definition number_text :: "rat \<Rightarrow> string" where
  \<comment> \<open>The text of a number in a template literal or in \<open>"" + data\<close>: positional decimal
      notation, which is what JavaScript prints for the integers below \<open>10^21\<close> and for
      short decimal fractions.\<close>
  "number_text q =
     (let a = \<bar>q\<bar>; whole = nat \<lfloor>a\<rfloor>; frac = a - of_nat whole
      in (if q < 0 then ''-'' else []) @ nat_text whole
         @ (if frac = 0 then [] else CHR ''.'' # fraction_text 17 frac))"

definition to_number :: "string \<Rightarrow> rat option" where
  \<comment> \<open>The unary plus of a string (\<open>+data\<close>), \<open>None\<close> for NaN, on the spellings
      sign, digits, optional point and digits. The other spellings JavaScript reads as a
      number (exponents, hexadecimal, surrounding white space, \<open>Infinity\<close>, the empty
      string) are not modelled and read as NaN.\<close>
  "to_number s =
     (let neg = (s \<noteq> [] \<and> hd s = CHR ''-'');
          rest = (if s \<noteq> [] \<and> (hd s = CHR ''-'' \<or> hd s = CHR ''+'') then tl s else s);
          whole = takeWhile is_digit rest;
          after = dropWhile is_digit rest;
          sign = (if neg then - 1 else 1)
      in if after = [] then
           (if whole = [] then None else Some (sign * of_nat (digits_value whole)))
         else if hd after = CHR ''.'' \<and> list_all is_digit (tl after)
                 \<and> (whole \<noteq> [] \<or> tl after \<noteq> []) then
           Some (sign * (of_nat (digits_value whole)
                         + of_nat (digits_value (tl after)) / 10 ^ length (tl after)))
         else None)"

section \<open>The body schema and its validator\<close>

text \<open>
  \<open>createEmployeeSchema\<close> (routes/employee/index.js) is a JSON schema, data for the
  validator of the framework. The schema is kept as data, with its properties in the order
  in which the source lists them; the validator is a function of the schema.
\<close>

datatype jtype = TNumber | TInteger | TString

fun type_name :: "jtype \<Rightarrow> string" where
  "type_name TNumber = ''number''"
| "type_name TInteger = ''integer''"
| "type_name TString = ''string''"

record property_schema =
  p_type :: jtype
  p_minimum :: "rat option"
  p_maximum :: "rat option"
  p_multipleOf :: "rat option"
  p_minLength :: "nat option"

record object_schema =
  required :: "string list"
  properties :: "(string \<times> property_schema) list"
  additionalProperties :: bool

definition id_schema :: property_schema where
  \<comment> \<open>\<open>id: { type: 'number', minimum: 1, multipleOf: 1 }\<close>\<close>
  "id_schema = \<lparr> p_type = TNumber, p_minimum = Some 1, p_maximum = None,
                 p_multipleOf = Some 1, p_minLength = None \<rparr>"

definition name_schema :: property_schema where
  \<comment> \<open>\<open>name: { type: 'string', minLength: 1 }\<close>\<close>
  "name_schema = \<lparr> p_type = TString, p_minimum = None, p_maximum = None,
                   p_multipleOf = None, p_minLength = Some 1 \<rparr>"

definition age_schema :: property_schema where
  \<comment> \<open>\<open>age: { type: 'integer', minimum: 5, maximum: 95 }\<close>\<close>
  "age_schema = \<lparr> p_type = TInteger, p_minimum = Some 5, p_maximum = Some 95,
                  p_multipleOf = None, p_minLength = None \<rparr>"

definition createEmployeeSchema :: object_schema where
  "createEmployeeSchema =
     \<lparr> required = [''name'', ''age''],
       properties = [(''id'', id_schema), (''name'', name_schema), (''age'', age_schema)],
       additionalProperties = False \<rparr>"

text \<open>
  A validation error as the error handler reads it: \<open>instancePath\<close>, \<open>keyword\<close> and
  the three entries of \<open>params\<close> it looks at (\<open>None\<close> when the entry is undefined).
\<close>

record validation_error =
  instancePath :: string
  keyword :: string
  missingProperty :: "string option"
  limit :: "rat option"
  type_param :: "string option"

definition verror :: "string \<Rightarrow> string \<Rightarrow> validation_error" where
  "verror path kw = \<lparr> instancePath = path, keyword = kw, missingProperty = None,
                      limit = None, type_param = None \<rparr>"

text \<open>
  The validator is the Ajv instance that Fastify builds. server.js sets \<open>allErrors: true\<close>
  and nothing else, so the other options are the framework's baseline: \<open>coerceTypes\<close> is
  on (a value of the wrong type is converted when it has a reading in the wanted type) and
  \<open>removeAdditional\<close> is on (a property the schema does not list is dropped without an
  error where the schema says \<open>additionalProperties: false\<close>). With \<open>allErrors\<close> every
  error is collected, in the order in which the validator visits the schema: the missing
  required properties in the order of \<open>required\<close>, then the properties in the order of
  \<open>properties\<close>, and for one property the type first, then the numeric keywords
  (\<open>maximum\<close>, \<open>minimum\<close>, \<open>multipleOf\<close>) when the value is a number and \<open>minLength\<close>
  when it is a string.
\<close>

definition has_type :: "jtype \<Rightarrow> json \<Rightarrow> bool" where
  "has_type t v =
     (case v of
        JNum q \<Rightarrow> t = TNumber \<or> (t = TInteger \<and> is_integer q)
      | JStr s \<Rightarrow> t = TString
      | _ \<Rightarrow> False)"

fun coerce :: "jtype \<Rightarrow> json \<Rightarrow> json option" where
  "coerce TString (JNum q) = Some (JStr (number_text q))"
| "coerce TString (JBool b) = Some (JStr (if b then ''true'' else ''false''))"
| "coerce TString JNull = Some (JStr [])"
| "coerce TString (JStr s) = None"
| "coerce TNumber (JBool b) = Some (JNum (if b then 1 else 0))"
| "coerce TNumber JNull = Some (JNum 0)"
| "coerce TNumber (JStr s) =
     (case to_number s of
        Some q \<Rightarrow> if s \<noteq> [] then Some (JNum q) else None
      | None \<Rightarrow> None)"
| "coerce TNumber (JNum q) = None"
| "coerce TInteger (JBool b) = Some (JNum (if b then 1 else 0))"
| "coerce TInteger JNull = Some (JNum 0)"
| "coerce TInteger (JStr s) =
     (case to_number s of
        Some q \<Rightarrow> if s \<noteq> [] \<and> is_integer q then Some (JNum q) else None
      | None \<Rightarrow> None)"
| "coerce TInteger (JNum q) = None"

definition check_type :: "string \<Rightarrow> jtype \<Rightarrow> json \<Rightarrow> validation_error list \<times> json" where
  "check_type path t v =
     (if has_type t v then ([], v)
      else case coerce t v of
             Some v' \<Rightarrow> ([], v')
           | None \<Rightarrow> ([(verror path ''type'')\<lparr> type_param := Some (type_name t) \<rparr>], v))"

definition number_keywords :: "string \<Rightarrow> property_schema \<Rightarrow> rat \<Rightarrow> validation_error list" where
  "number_keywords path ps q =
     (case p_maximum ps of
        Some m \<Rightarrow> if q > m then [(verror path ''maximum'')\<lparr> limit := Some m \<rparr>] else []
      | None \<Rightarrow> [])
     @ (case p_minimum ps of
          Some m \<Rightarrow> if q < m then [(verror path ''minimum'')\<lparr> limit := Some m \<rparr>] else []
        | None \<Rightarrow> [])
     @ (case p_multipleOf ps of
          Some m \<Rightarrow> if is_integer (q / m) then [] else [verror path ''multipleOf'']
        | None \<Rightarrow> [])"

definition string_keywords :: "string \<Rightarrow> property_schema \<Rightarrow> string \<Rightarrow> validation_error list" where
  "string_keywords path ps s =
     (case p_minLength ps of
        Some n \<Rightarrow> if length s < n then [(verror path ''minLength'')\<lparr> limit := Some (of_nat n) \<rparr>]
                  else []
      | None \<Rightarrow> [])"

definition validate_property ::
  "string \<Rightarrow> property_schema \<Rightarrow> json \<Rightarrow> validation_error list \<times> json" where
  "validate_property path ps v =
     (let (type_errors, v') = check_type path (p_type ps) v
      in (type_errors @
          (case v' of
             JNum q \<Rightarrow> number_keywords path ps q
           | JStr s \<Rightarrow> string_keywords path ps s
           | _ \<Rightarrow> []),
          v'))"

fun validate_properties ::
  "(string \<times> property_schema) list \<Rightarrow> body \<Rightarrow> validation_error list \<times> body" where
  "validate_properties [] b = ([], b)"
| "validate_properties ((p, ps) # rest) b =
     (case b p of
        None \<Rightarrow> validate_properties rest b
      | Some v \<Rightarrow>
          (let (errs, v') = validate_property (CHR ''/'' # p) ps v;
               (errs', b') = validate_properties rest (b(p \<mapsto> v'))
           in (errs @ errs', b')))"

definition property_errors :: "string \<Rightarrow> property_schema \<Rightarrow> json option \<Rightarrow> validation_error list" where
  \<comment> \<open>the errors of one property of the body, none when the property is absent\<close>
  "property_errors p ps v =
     (case v of None \<Rightarrow> [] | Some x \<Rightarrow> fst (validate_property (CHR ''/'' # p) ps x))"

definition property_value :: "string \<Rightarrow> property_schema \<Rightarrow> json option \<Rightarrow> json option" where
  \<comment> \<open>the value of one property of the body after coercion\<close>
  "property_value p ps v =
     (case v of None \<Rightarrow> None | Some x \<Rightarrow> Some (snd (validate_property (CHR ''/'' # p) ps x)))"

definition missing_required :: "string list \<Rightarrow> body \<Rightarrow> validation_error list" where
  "missing_required req b =
     map (\<lambda>p. (verror [] ''required'')\<lparr> missingProperty := Some p \<rparr>)
         (filter (\<lambda>p. b p = None) req)"

definition remove_additional :: "object_schema \<Rightarrow> body \<Rightarrow> body" where
  "remove_additional sch b =
     (if additionalProperties sch then b
      else (\<lambda>p. if p \<in> set (map fst (properties sch)) then b p else None))"

definition validate :: "object_schema \<Rightarrow> body \<Rightarrow> validation_error list \<times> body" where
  \<comment> \<open>the errors, in the validator's order, and the body after removal and coercion\<close>
  "validate sch b =
     (let (errs, b') = validate_properties (properties sch) (remove_additional sch b)
      in (missing_required (required sch) b @ errs, b'))"

section \<open>The error handler\<close>

text \<open>
  \<open>setErrorHandler\<close> (server.js): a validation failure is answered from the first error of
  the list alone; any other error is an opaque 500.
\<close>

record employee =
  emp_id :: rat
  emp_name :: string
  emp_age :: rat

record response =
  status :: nat
  success :: bool
  message :: string
  data :: "employee option"

datatype error = Validation "validation_error list" | Other

definition limit_text :: "validation_error \<Rightarrow> string" where
  \<comment> \<open>\<open>${firstError.params.limit}\<close>\<close>
  "limit_text e = (case limit e of Some q \<Rightarrow> number_text q | None \<Rightarrow> ''undefined'')"

definition error_field :: "validation_error \<Rightarrow> string" where
  \<comment> \<open>\<open>instancePath.replace('/', '') || params.missingProperty || 'data'\<close>\<close>
  "error_field e =
     (let path = remove1 (CHR ''/'') (instancePath e)
      in if path \<noteq> [] then path
         else case missingProperty e of
                Some p \<Rightarrow> if p \<noteq> [] then p else ''data''
              | None \<Rightarrow> ''data'')"

definition error_message :: "validation_error list \<Rightarrow> string" where
  "error_message validationErrors =
     (case validationErrors of
        [] \<Rightarrow> ''Validation failed''
      | firstError # _ \<Rightarrow>
          (let field = error_field firstError; kw = keyword firstError
           in if field = ''age'' \<and> (kw = ''minimum'' \<or> kw = ''maximum'' \<or> kw = ''type''
                                      \<or> kw = ''multipleOf'')
              then ''Age must be between 5 and 95 years''
              else if kw = ''minimum'' then
                (if field = ''id'' then ''ID must be at least '' @ limit_text firstError
                 else field @ '' must be at least '' @ limit_text firstError)
              else if kw = ''maximum'' then field @ '' must be at most '' @ limit_text firstError
              else if kw = ''type'' then
                field @ '' must be a ''
                  @ (case type_param firstError of Some t \<Rightarrow> t | None \<Rightarrow> ''undefined'')
              else if kw = ''required'' then
                (case missingProperty firstError of Some p \<Rightarrow> p | None \<Rightarrow> ''undefined'')
                  @ '' is required''
              else if kw = ''minLength'' then field @ '' cannot be empty''
              else if kw = ''multipleOf'' then field @ '' must be a whole number''
              else ''Invalid '' @ field))"

definition errorHandler :: "error \<Rightarrow> response" where
  "errorHandler err =
     (case err of
        Validation validationErrors \<Rightarrow>
          \<lparr> status = 400, success = False, message = error_message validationErrors,
            data = None \<rparr>
      | Other \<Rightarrow>
          \<lparr> status = 500, success = False, message = ''Internal server error'', data = None \<rparr>)"

section \<open>The state module\<close>

record state =
  employees :: "employee list"
  nextId :: rat

definition initial_state :: state where
  \<comment> \<open>\<open>let employees = []; let nextId = 1;\<close>\<close>
  "initial_state = \<lparr> employees = [], nextId = 1 \<rparr>"

definition getEmployees :: "state \<Rightarrow> employee list" where
  "getEmployees st = employees st"

definition setEmployees :: "employee list \<Rightarrow> state \<Rightarrow> state" where
  "setEmployees arr st = st\<lparr> employees := arr \<rparr>"

definition getNextId :: "state \<Rightarrow> rat" where
  "getNextId st = nextId st"

definition setNextId :: "rat \<Rightarrow> state \<Rightarrow> state" where
  "setNextId val st = st\<lparr> nextId := val \<rparr>"

definition reset :: "state \<Rightarrow> state" where
  "reset st = st\<lparr> employees := [], nextId := 1 \<rparr>"

section \<open>The route handlers\<close>

definition digits_only :: "string \<Rightarrow> bool" where
  \<comment> \<open>\<open>/^\d+$/.test(id)\<close>\<close>
  "digits_only s \<longleftrightarrow> s \<noteq> [] \<and> list_all is_digit s"

definition parseInt :: "string \<Rightarrow> rat" where
  \<comment> \<open>\<open>parseInt\<close> on a string of decimal digits, the only strings the handlers pass to it\<close>
  "parseInt s = of_nat (digits_value s)"

fun findIndex :: "('a \<Rightarrow> bool) \<Rightarrow> 'a list \<Rightarrow> int" where
  "findIndex P [] = - 1"
| "findIndex P (x # xs) =
     (if P x then 0 else (let i = findIndex P xs in if i = - 1 then - 1 else i + 1))"

definition splice1 :: "nat \<Rightarrow> 'a list \<Rightarrow> 'a list" where
  \<comment> \<open>what \<open>splice(i, 1)\<close> leaves in the array\<close>
  "splice1 i xs = take i xs @ drop (Suc i) xs"

definition invalid_id_format :: response where
  "invalid_id_format =
     \<lparr> status = 400, success = False, message = ''Invalid ID format. ID must be a number.'',
       data = None \<rparr>"

definition not_found :: response where
  "not_found = \<lparr> status = 404, success = False, message = ''Employee not found'', data = None \<rparr>"

definition get_employee :: "state \<Rightarrow> string \<Rightarrow> response" where
  \<comment> \<open>GET /employees/:id\<close>
  "get_employee st ident =
     (if \<not> digits_only ident then invalid_id_format
      else
        let employeeId = parseInt ident
        in case find (\<lambda>emp. emp_id emp = employeeId) (getEmployees st) of
             None \<Rightarrow> not_found
           | Some employee \<Rightarrow>
               \<lparr> status = 200, success = True, message = ''Employee retrieved successfully'',
                 data = Some employee \<rparr>)"

text \<open>
  The handlers of POST and PUT run on a body that has passed validation: \<open>name\<close> is then
  a string, \<open>age\<close> a number and \<open>id\<close> a number or absent (\<open>validate_typed\<close> below).
  \<open>typed_body\<close> is that reading of the body.
\<close>

record employee_body =
  body_id :: "rat option"
  body_name :: string
  body_age :: rat

definition typed_body :: "body \<Rightarrow> employee_body option" where
  "typed_body b =
     (case (b ''id'', b ''name'', b ''age'') of
        (None, Some (JStr n), Some (JNum a)) \<Rightarrow>
          Some \<lparr> body_id = None, body_name = n, body_age = a \<rparr>
      | (Some (JNum i), Some (JStr n), Some (JNum a)) \<Rightarrow>
          Some \<lparr> body_id = Some i, body_name = n, body_age = a \<rparr>
      | _ \<Rightarrow> None)"

definition created :: "employee \<Rightarrow> response" where
  "created e = \<lparr> status = 201, success = True, message = ''Employee created successfully'',
                 data = Some e \<rparr>"

definition push_employee :: "employee \<Rightarrow> state \<Rightarrow> response \<times> state" where
  \<comment> \<open>the end of the POST handler: \<open>employees.push(newEmployee)\<close> and the 201 reply\<close>
  "push_employee newEmployee st =
     (created newEmployee, setEmployees (getEmployees st @ [newEmployee]) st)"

definition create_handler :: "state \<Rightarrow> employee_body \<Rightarrow> response \<times> state" where
  "create_handler st b =
     (case body_id b of
        Some i \<Rightarrow>
          (let employeeId = i
           in case find (\<lambda>emp. emp_id emp = employeeId) (getEmployees st) of
                Some existingEmployee \<Rightarrow>
                  (\<lparr> status = 409, success = False,
                     message = ''Employee with ID '' @ number_text employeeId @ '' already exists'',
                     data = None \<rparr>, st)
              | None \<Rightarrow>
                  push_employee \<lparr> emp_id = employeeId, emp_name = body_name b,
                                  emp_age = body_age b \<rparr> st)
      | None \<Rightarrow>
          (let employeeId = getNextId st;
               st' = setNextId (employeeId + 1) st
           in push_employee \<lparr> emp_id = employeeId, emp_name = body_name b,
                              emp_age = body_age b \<rparr> st'))"

definition update_handler :: "state \<Rightarrow> string \<Rightarrow> employee_body \<Rightarrow> response \<times> state" where
  "update_handler st ident b =
     (if \<not> digits_only ident then (invalid_id_format, st)
      else
        let employeeId = parseInt ident;
            arr = getEmployees st;
            employeeIndex = findIndex (\<lambda>emp. emp_id emp = employeeId) arr
        in if employeeIndex = - 1 then (not_found, st)
           else
             let k = nat employeeIndex;
                 arr' = arr[k := (arr ! k)\<lparr> emp_name := body_name b, emp_age := body_age b \<rparr>]
             in (\<lparr> status = 200, success = True, message = ''Employee updated successfully'',
                   data = Some (arr' ! k) \<rparr>,
                 setEmployees arr' st))"

definition delete_employee :: "state \<Rightarrow> string \<Rightarrow> response \<times> state" where
  \<comment> \<open>DELETE /employees/:id\<close>
  "delete_employee st ident =
     (if \<not> digits_only ident then (invalid_id_format, st)
      else
        let employeeId = parseInt ident;
            arr = getEmployees st;
            employeeIndex = findIndex (\<lambda>emp. emp_id emp = employeeId) arr
        in if employeeIndex = - 1 then (not_found, st)
           else
             let k = nat employeeIndex;
                 deletedEmployee = arr ! k
             in (\<lparr> status = 200, success = True, message = ''Employee deleted successfully'',
                   data = Some deletedEmployee \<rparr>,
                 setEmployees (splice1 k arr) st))"

text \<open>
  A route with a body schema validates the body before its handler runs; a failure goes to
  the error handler and the handler is not called. Both POST and PUT use
  \<open>createEmployeeSchema\<close>.
\<close>

definition with_body ::
  "(employee_body \<Rightarrow> response \<times> state) \<Rightarrow> state \<Rightarrow> body \<Rightarrow> response \<times> state" where
  "with_body handler st b =
     (case validate createEmployeeSchema b of
        (e # es, b') \<Rightarrow> (errorHandler (Validation (e # es)), st)
      | ([], b') \<Rightarrow>
          (case typed_body b' of
             Some tb \<Rightarrow> handler tb
           | None \<Rightarrow> (errorHandler Other, st)))"

definition validated :: "body \<Rightarrow> employee_body option" where
  \<comment> \<open>the body that reaches a handler, \<open>None\<close> when validation rejects the request\<close>
  "validated b =
     (case validate createEmployeeSchema b of
        ([], b') \<Rightarrow> typed_body b'
      | (e # es, b') \<Rightarrow> None)"

definition create_employee :: "state \<Rightarrow> body \<Rightarrow> response \<times> state" where
  \<comment> \<open>POST /employees\<close>
  "create_employee st b = with_body (create_handler st) st b"

definition update_employee :: "state \<Rightarrow> string \<Rightarrow> body \<Rightarrow> response \<times> state" where
  \<comment> \<open>PUT /employees/:id\<close>
  "update_employee st ident b = with_body (update_handler st ident) st b"

text \<open>A request, for runs of the service.\<close>

datatype request =
    Create body
  | Update string body
  | Delete string

fun step :: "state \<Rightarrow> request \<Rightarrow> state" where
  "step st (Create b) = snd (create_employee st b)"
| "step st (Update ident b) = snd (update_employee st ident b)"
| "step st (Delete ident) = snd (delete_employee st ident)"

definition run :: "request list \<Rightarrow> state" where
  "run rs = foldl step initial_state rs"

definition obj :: "(string \<times> json) list \<Rightarrow> body" where
  \<comment> \<open>a body written as its list of properties\<close>
  "obj ps = map_of ps"

section \<open>What validation does to a body\<close>

text \<open>
  The three properties of the schema have different names, so the validator's pass over the
  body is the three properties taken one by one.
\<close>

lemma validate_properties_create:
  "validate_properties [(''id'', id_schema), (''name'', name_schema), (''age'', age_schema)] c =
     (property_errors ''id'' id_schema (c ''id'')
        @ property_errors ''name'' name_schema (c ''name'')
        @ property_errors ''age'' age_schema (c ''age''),
      c(''id'' := property_value ''id'' id_schema (c ''id''),
        ''name'' := property_value ''name'' name_schema (c ''name''),
        ''age'' := property_value ''age'' age_schema (c ''age'')))"
  by (cases "c ''id''"; cases "c ''name''"; cases "c ''age''")
     (simp_all add: property_errors_def property_value_def Let_def case_prod_beta fun_upd_idem)

lemma validate_create:
  "validate createEmployeeSchema b =
     (missing_required [''name'', ''age''] b
        @ property_errors ''id'' id_schema (b ''id'')
        @ property_errors ''name'' name_schema (b ''name'')
        @ property_errors ''age'' age_schema (b ''age''),
      (\<lambda>p. if p = ''id'' then property_value ''id'' id_schema (b ''id'')
           else if p = ''name'' then property_value ''name'' name_schema (b ''name'')
           else if p = ''age'' then property_value ''age'' age_schema (b ''age'')
           else None))"
proof -
  have props: "properties createEmployeeSchema =
      [(''id'', id_schema), (''name'', name_schema), (''age'', age_schema)]"
    and req: "required createEmployeeSchema = [''name'', ''age'']"
    by (simp_all add: createEmployeeSchema_def)
  show ?thesis
    unfolding validate_def props req validate_properties_create
    by (simp add: createEmployeeSchema_def remove_additional_def fun_eq_iff)
qed

lemma coerce_string_is_string: "coerce TString v = Some v' \<Longrightarrow> \<exists>s. v' = JStr s"
  by (cases v) auto

lemma coerce_number_is_number: "coerce TNumber v = Some v' \<Longrightarrow> \<exists>q. v' = JNum q"
  by (cases v) (auto split: option.splits if_splits)

lemma coerce_integer_is_number: "coerce TInteger v = Some v' \<Longrightarrow> \<exists>q. v' = JNum q"
  by (cases v) (auto split: option.splits if_splits)

lemma id_value_number:
  "property_errors ''id'' id_schema (Some v) = [] \<Longrightarrow>
     \<exists>q. property_value ''id'' id_schema (Some v) = Some (JNum q)"
  by (auto simp: property_errors_def property_value_def validate_property_def
      check_type_def has_type_def id_schema_def
      split: json.splits option.splits if_splits dest: coerce_number_is_number)

lemma name_value_string:
  "property_errors ''name'' name_schema (Some v) = [] \<Longrightarrow>
     \<exists>s. property_value ''name'' name_schema (Some v) = Some (JStr s)"
  by (auto simp: property_errors_def property_value_def validate_property_def
      check_type_def has_type_def name_schema_def
      split: json.splits option.splits if_splits dest: coerce_string_is_string)

lemma age_value_number:
  "property_errors ''age'' age_schema (Some v) = [] \<Longrightarrow>
     \<exists>q. property_value ''age'' age_schema (Some v) = Some (JNum q)"
  by (auto simp: property_errors_def property_value_def validate_property_def
      check_type_def has_type_def age_schema_def
      split: json.splits option.splits if_splits dest: coerce_integer_is_number)

lemma missing_required_empty:
  "missing_required [''name'', ''age''] b = [] \<longleftrightarrow> b ''name'' \<noteq> None \<and> b ''age'' \<noteq> None"
  by (auto simp: missing_required_def)

lemma validate_typed:
  assumes "fst (validate createEmployeeSchema b) = []"
  shows "\<exists>tb. typed_body (snd (validate createEmployeeSchema b)) = Some tb
               \<and> (body_id tb = None \<longleftrightarrow> b ''id'' = None)"
proof -
  from assms obtain vn va where n: "b ''name'' = Some vn" and a: "b ''age'' = Some va"
    by (auto simp: validate_create missing_required_empty)
  from assms n obtain s where s: "property_value ''name'' name_schema (b ''name'') = Some (JStr s)"
    using name_value_string [of vn] by (auto simp: validate_create)
  from assms a obtain q where q: "property_value ''age'' age_schema (b ''age'') = Some (JNum q)"
    using age_value_number [of va] by (auto simp: validate_create)
  from assms have i: "property_errors ''id'' id_schema (b ''id'') = []"
    by (simp add: validate_create)
  show ?thesis
  proof (cases "b ''id''")
    case None
    then show ?thesis using s q by (simp add: validate_create typed_body_def property_value_def)
  next
    case (Some vi)
    with i id_value_number [of vi] obtain x where "property_value ''id'' id_schema (b ''id'') = Some (JNum x)"
      by auto
    then show ?thesis using s q Some by (simp add: validate_create typed_body_def)
  qed
qed

lemma with_body_rejected:
  assumes "fst (validate createEmployeeSchema b) = e # es"
  shows "with_body h st b =
           (\<lparr> status = 400, success = False, message = error_message (e # es), data = None \<rparr>, st)"
  using assms by (cases "validate createEmployeeSchema b") (simp add: with_body_def errorHandler_def)

lemma validated_None_iff: "validated b = None \<longleftrightarrow> fst (validate createEmployeeSchema b) \<noteq> []"
proof (cases "fst (validate createEmployeeSchema b)")
  case Nil
  with validate_typed [of b] show ?thesis
    by (cases "validate createEmployeeSchema b") (auto simp: validated_def)
next
  case (Cons e es)
  then show ?thesis
    by (cases "validate createEmployeeSchema b") (auto simp: validated_def)
qed

lemma with_body_accepted:
  assumes "validated b = Some tb"
  shows "with_body h st b = h tb"
proof -
  from assms have "fst (validate createEmployeeSchema b) = []"
    using validated_None_iff [of b] by auto
  with assms show ?thesis
    by (cases "validate createEmployeeSchema b") (simp add: with_body_def validated_def)
qed

lemma validated_id_absent:
  assumes "validated b = Some tb"
  shows "body_id tb = None \<longleftrightarrow> b ''id'' = None"
proof -
  from assms have ok: "fst (validate createEmployeeSchema b) = []"
    using validated_None_iff [of b] by auto
  with assms have "typed_body (snd (validate createEmployeeSchema b)) = Some tb"
    by (cases "validate createEmployeeSchema b") (simp add: validated_def)
  with validate_typed [OF ok] show ?thesis by auto
qed

subsection \<open>The errors of well-typed properties\<close>


lemma is_integer_of_int [simp]: "is_integer (of_int a)"
  by (simp add: is_integer_def)

lemma id_number:
  "property_errors ''id'' id_schema (Some (JNum i)) =
     (if i < 1 then [(verror ''/id'' ''minimum'')\<lparr> limit := Some 1 \<rparr>] else [])
     @ (if is_integer i then [] else [verror ''/id'' ''multipleOf''])"
  "property_value ''id'' id_schema (Some (JNum i)) = Some (JNum i)"
  by (simp_all add: property_errors_def property_value_def validate_property_def check_type_def
      has_type_def id_schema_def number_keywords_def)

lemma name_string:
  "property_errors ''name'' name_schema (Some (JStr n)) =
     (if n = [] then [(verror ''/name'' ''minLength'')\<lparr> limit := Some 1 \<rparr>] else [])"
  "property_value ''name'' name_schema (Some (JStr n)) = Some (JStr n)"
  by (simp_all add: property_errors_def property_value_def validate_property_def check_type_def
      has_type_def name_schema_def string_keywords_def)

lemma age_number:
  "property_errors ''age'' age_schema (Some (JNum a)) =
     (if is_integer a then [] else [(verror ''/age'' ''type'')\<lparr> type_param := Some ''integer'' \<rparr>])
     @ (if 95 < a then [(verror ''/age'' ''maximum'')\<lparr> limit := Some 95 \<rparr>] else [])
     @ (if a < 5 then [(verror ''/age'' ''minimum'')\<lparr> limit := Some 5 \<rparr>] else [])"
  "property_value ''age'' age_schema (Some (JNum a)) = Some (JNum a)"
  by (simp_all add: property_errors_def property_value_def validate_property_def check_type_def
      has_type_def age_schema_def number_keywords_def)

lemma property_absent [simp]:
  "property_errors p ps None = []" "property_value p ps None = None"
  by (simp_all add: property_errors_def property_value_def)


subsection \<open>The message of the first error\<close>






section \<open>Searching the array\<close>

lemma findIndex_lower: "- 1 \<le> findIndex P xs"
  by (induction xs) (auto simp: Let_def)

lemma findIndex_absent: "findIndex P xs = - 1 \<longleftrightarrow> (\<forall>x \<in> set xs. \<not> P x)"
proof (induction xs)
  case Nil
  then show ?case by simp
next
  case (Cons x xs)
  with findIndex_lower [of P xs] show ?case by (auto simp: Let_def)
qed

lemma findIndex_first:
  assumes "k < length xs" "P (xs ! k)" "\<forall>j<k. \<not> P (xs ! j)"
  shows "findIndex P xs = int k"
  using assms
proof (induction xs arbitrary: k)
  case Nil
  then show ?case by simp
next
  case (Cons x xs)
  show ?case
  proof (cases k)
    case 0
    with Cons.prems show ?thesis by simp
  next
    case (Suc m)
    with Cons.prems have "\<not> P x" by auto
    moreover from Suc Cons.prems have "findIndex P xs = int m"
      by (intro Cons.IH) auto
    ultimately show ?thesis using Suc by (simp add: Let_def)
  qed
qed

lemma findIndex_present:
  assumes "findIndex P xs \<noteq> - 1"
  shows "\<exists>k<length xs. findIndex P xs = int k \<and> P (xs ! k) \<and> (\<forall>j<k. \<not> P (xs ! j))"
  using assms
proof (induction xs)
  case Nil
  then show ?case by simp
next
  case (Cons x xs)
  show ?case
  proof (cases "P x")
    case True
    then show ?thesis by (intro exI [of _ 0]) simp
  next
    case False
    with Cons.prems have "findIndex P xs \<noteq> - 1" by (auto simp: Let_def)
    from Cons.IH [OF this] obtain k where k: "k < length xs" "findIndex P xs = int k"
      "P (xs ! k)" "\<forall>j<k. \<not> P (xs ! j)" by blast
    show ?thesis
    proof (intro exI [of _ "Suc k"] conjI allI impI)
      show "Suc k < length (x # xs)" using k by simp
      show "findIndex P (x # xs) = int (Suc k)" using False k by (simp add: Let_def)
      show "P ((x # xs) ! Suc k)" using k by simp
      fix j assume "j < Suc k"
      then show "\<not> P ((x # xs) ! j)" using False k by (cases j) auto
    qed
  qed
qed

section \<open>The handlers, case by case\<close>

lemma with_body_state:
  "validated b = None \<Longrightarrow> snd (with_body h st b) = st"
  "validated b = None \<Longrightarrow> status (fst (with_body h st b)) = 400"
proof -
  assume "validated b = None"
  then obtain e es where "fst (validate createEmployeeSchema b) = e # es"
    using validated_None_iff [of b] by (cases "fst (validate createEmployeeSchema b)") auto
  from with_body_rejected [OF this]
  show "snd (with_body h st b) = st" "status (fst (with_body h st b)) = 400" by simp_all
qed

text \<open>A body that passes validation with well-typed properties reaches the handler as it is.\<close>

lemma validated_fields:
  assumes "validated b = Some tb"
  shows "b ''name'' = Some (JStr n) \<Longrightarrow> body_name tb = n"
    and "b ''age'' = Some (JNum a) \<Longrightarrow> body_age tb = a"
    and "b ''id'' = Some (JNum i) \<Longrightarrow> body_id tb = Some i"
  using assms
  by (auto simp: validated_def validate_create typed_body_def id_number name_string age_number
      split: list.splits option.splits json.splits)

lemma create_handler_auto:
  "body_id tb = None \<Longrightarrow>
     create_handler st tb =
       (created \<lparr> emp_id = nextId st, emp_name = body_name tb, emp_age = body_age tb \<rparr>,
        st\<lparr> employees := employees st
                 @ [\<lparr> emp_id = nextId st, emp_name = body_name tb, emp_age = body_age tb \<rparr>],
            nextId := nextId st + 1 \<rparr>)"
  by (simp add: create_handler_def push_employee_def getNextId_def setNextId_def
      getEmployees_def setEmployees_def Let_def)

lemma create_handler_explicit:
  assumes "body_id tb = Some i"
  shows "create_handler st tb =
       (if \<exists>e \<in> set (employees st). emp_id e = i
        then (\<lparr> status = 409, success = False,
                message = ''Employee with ID '' @ number_text i @ '' already exists'',
                data = None \<rparr>, st)
        else (created \<lparr> emp_id = i, emp_name = body_name tb, emp_age = body_age tb \<rparr>,
              st\<lparr> employees := employees st
                 @ [\<lparr> emp_id = i, emp_name = body_name tb, emp_age = body_age tb \<rparr>] \<rparr>))"
proof (cases "find (\<lambda>emp. emp_id emp = i) (employees st)")
  case None
  then have "\<forall>e \<in> set (employees st). emp_id e \<noteq> i"
    by (simp add: find_None_iff)
  with None assms show ?thesis
    by (simp add: create_handler_def push_employee_def getEmployees_def setEmployees_def)
next
  case (Some x)
  then have "x \<in> set (employees st) \<and> emp_id x = i"
    by (auto simp: find_Some_iff)
  then have "\<exists>e \<in> set (employees st). emp_id e = i" by blast
  with Some assms show ?thesis
    by (simp add: create_handler_def getEmployees_def)
qed

lemma update_handler_found:
  assumes "digits_only ident" "k < length (employees st)"
    and "emp_id (employees st ! k) = parseInt ident"
    and "\<forall>j<k. emp_id (employees st ! j) \<noteq> parseInt ident"
  shows "update_handler st ident tb =
           (\<lparr> status = 200, success = True, message = ''Employee updated successfully'',
              data = Some ((employees st ! k)\<lparr> emp_name := body_name tb, emp_age := body_age tb \<rparr>) \<rparr>,
            st\<lparr> employees := (employees st)[k := (employees st ! k)
                   \<lparr> emp_name := body_name tb, emp_age := body_age tb \<rparr>] \<rparr>)"
proof -
  have "findIndex (\<lambda>emp. emp_id emp = parseInt ident) (employees st) = int k"
    using assms by (intro findIndex_first) auto
  with assms show ?thesis
    by (simp add: update_handler_def getEmployees_def setEmployees_def Let_def)
qed

lemma update_handler_absent:
  assumes "digits_only ident" "\<forall>e \<in> set (employees st). emp_id e \<noteq> parseInt ident"
  shows "update_handler st ident tb = (not_found, st)"
proof -
  have "findIndex (\<lambda>emp. emp_id emp = parseInt ident) (employees st) = - 1"
    using assms by (simp add: findIndex_absent)
  with assms show ?thesis
    by (simp add: update_handler_def getEmployees_def Let_def)
qed

lemma delete_found:
  assumes "digits_only ident" "k < length (employees st)"
    and "emp_id (employees st ! k) = parseInt ident"
    and "\<forall>j<k. emp_id (employees st ! j) \<noteq> parseInt ident"
  shows "delete_employee st ident =
           (\<lparr> status = 200, success = True, message = ''Employee deleted successfully'',
              data = Some (employees st ! k) \<rparr>,
            st\<lparr> employees := take k (employees st) @ drop (Suc k) (employees st) \<rparr>)"
proof -
  have "findIndex (\<lambda>emp. emp_id emp = parseInt ident) (employees st) = int k"
    using assms by (intro findIndex_first) auto
  with assms show ?thesis
    by (simp add: delete_employee_def getEmployees_def setEmployees_def splice1_def Let_def)
qed

lemma delete_absent:
  assumes "digits_only ident" "\<forall>e \<in> set (employees st). emp_id e \<noteq> parseInt ident"
  shows "delete_employee st ident = (not_found, st)"
proof -
  have "findIndex (\<lambda>emp. emp_id emp = parseInt ident) (employees st) = - 1"
    using assms by (simp add: findIndex_absent)
  with assms show ?thesis
    by (simp add: delete_employee_def getEmployees_def Let_def)
qed

lemma get_absent:
  assumes "digits_only ident" "\<forall>e \<in> set (employees st). emp_id e \<noteq> parseInt ident"
  shows "get_employee st ident = not_found"
  using assms by (simp add: get_employee_def getEmployees_def find_None_iff [THEN iffD2])

lemma first_with_id:
  assumes "e \<in> set xs" "emp_id e = q"
  shows "\<exists>k<length xs. emp_id (xs ! k) = q \<and> (\<forall>j<k. emp_id (xs ! j) \<noteq> q)"
proof -
  from assms have "findIndex (\<lambda>emp. emp_id emp = q) xs \<noteq> - 1"
    by (auto simp: findIndex_absent)
  from findIndex_present [OF this] show ?thesis by blast
qed

section \<open>Rejected and accepted create requests\<close>












lemma created_auto:
  assumes "validated b = Some tb" "body_id tb = None"
  shows "create_employee st b =
       (\<lparr> status = 201, success = True, message = ''Employee created successfully'',
          data = Some \<lparr> emp_id = nextId st, emp_name = body_name tb, emp_age = body_age tb \<rparr> \<rparr>,
        st\<lparr> employees := employees st
                 @ [\<lparr> emp_id = nextId st, emp_name = body_name tb, emp_age = body_age tb \<rparr>],
            nextId := nextId st + 1 \<rparr>)"
  using assms
  by (simp add: create_employee_def with_body_accepted create_handler_auto created_def)

lemma is_integer_numeral [simp]: "is_integer (numeral w)" "is_integer 0" "is_integer 1"
  by (simp_all add: is_integer_def)


section \<open>The id in the body of an update, and the ids in the store\<close>



lemma ids_after_update:
  "k < length xs \<Longrightarrow>
     map emp_id (xs[k := (xs ! k)\<lparr> emp_name := n, emp_age := a \<rparr>]) = map emp_id xs"
  by (simp add: map_update list_update_same_conv)

lemma update_handler_result:
  "update_handler st ident tb = (invalid_id_format, st)
   \<or> update_handler st ident tb = (not_found, st)
   \<or> (\<exists>k < length (employees st). emp_id (employees st ! k) = parseInt ident
        \<and> update_handler st ident tb =
            (\<lparr> status = 200, success = True, message = ''Employee updated successfully'',
               data = Some ((employees st ! k)
                        \<lparr> emp_name := body_name tb, emp_age := body_age tb \<rparr>) \<rparr>,
             st\<lparr> employees := (employees st)[k := (employees st ! k)
                    \<lparr> emp_name := body_name tb, emp_age := body_age tb \<rparr>] \<rparr>))"
proof (cases "digits_only ident")
  case False
  then show ?thesis by (simp add: update_handler_def)
next
  case True
  show ?thesis
  proof (cases "\<forall>e \<in> set (employees st). emp_id e \<noteq> parseInt ident")
    case all: True
    from update_handler_absent [OF True all] show ?thesis by simp
  next
    case False
    then obtain e where "e \<in> set (employees st)" "emp_id e = parseInt ident" by blast
    from first_with_id [OF this] obtain k where k: "k < length (employees st)"
      "emp_id (employees st ! k) = parseInt ident"
      "\<forall>j<k. emp_id (employees st ! j) \<noteq> parseInt ident"
      by blast
    from update_handler_found [OF True k, of tb] k show ?thesis by blast
  qed
qed

lemma delete_result:
  "delete_employee st ident = (invalid_id_format, st)
   \<or> delete_employee st ident = (not_found, st)
   \<or> (\<exists>k < length (employees st). emp_id (employees st ! k) = parseInt ident
        \<and> (\<forall>j<k. emp_id (employees st ! j) \<noteq> parseInt ident)
        \<and> delete_employee st ident =
            (\<lparr> status = 200, success = True, message = ''Employee deleted successfully'',
               data = Some (employees st ! k) \<rparr>,
             st\<lparr> employees := take k (employees st) @ drop (Suc k) (employees st) \<rparr>))"
proof (cases "digits_only ident")
  case False
  then show ?thesis by (simp add: delete_employee_def)
next
  case True
  show ?thesis
  proof (cases "\<forall>e \<in> set (employees st). emp_id e \<noteq> parseInt ident")
    case all: True
    from delete_absent [OF True all] show ?thesis by simp
  next
    case False
    then obtain e where "e \<in> set (employees st)" "emp_id e = parseInt ident" by blast
    from first_with_id [OF this] obtain k where k: "k < length (employees st)"
      "emp_id (employees st ! k) = parseInt ident"
      "\<forall>j<k. emp_id (employees st ! j) \<noteq> parseInt ident"
      by blast
    from delete_found [OF True k] k show ?thesis by blast
  qed
qed

lemma same_id_same_record:
  assumes "distinct (map emp_id xs)" "e \<in> set xs" "k < length xs" "emp_id (xs ! k) = emp_id e"
  shows "xs ! k = e"
proof -
  from assms(2) obtain m where m: "m < length xs" "xs ! m = e"
    by (auto simp: in_set_conv_nth)
  with assms have "m = k"
    by (simp add: distinct_conv_nth) metis
  with m show ?thesis by simp
qed

lemma distinct_without:
  assumes "distinct (map f xs)"
  shows "distinct (map f (take k xs @ drop (Suc k) xs))"
    and "k < length xs \<Longrightarrow> f (xs ! k) \<notin> f ` set (take k xs @ drop (Suc k) xs)"
proof -
  let ?ys = "map f xs"
  have rest: "map f (take k xs @ drop (Suc k) xs) = take k ?ys @ drop (Suc k) ?ys"
    by (simp add: take_map drop_map)
  have disj: "set (take k ?ys) \<inter> set (drop (Suc k) ?ys) = {}"
    using assms by (intro set_take_disj_set_drop_if_distinct) auto
  with assms show "distinct (map f (take k xs @ drop (Suc k) xs))"
    unfolding rest by simp
  assume k: "k < length xs"
  then have "?ys = take k ?ys @ ?ys ! k # drop (Suc k) ?ys"
    by (intro id_take_nth_drop) simp
  with assms have "distinct (take k ?ys @ ?ys ! k # drop (Suc k) ?ys)" by simp
  then have "?ys ! k \<notin> set (take k ?ys @ drop (Suc k) ?ys)" by auto
  with k show "f (xs ! k) \<notin> f ` set (take k xs @ drop (Suc k) xs)"
    using rest by (metis nth_map set_map)
qed

text \<open>
  Every request but a create without an id keeps the ids of the store distinct; a create
  without an id keeps them distinct exactly when the counter's value is not an id in use.
\<close>

lemma other_requests_keep_ids_distinct:
  assumes "distinct (map emp_id (employees st))"
    and "case r of Create b \<Rightarrow> b ''id'' \<noteq> None | Update ident b \<Rightarrow> True | Delete ident \<Rightarrow> True"
  shows "distinct (map emp_id (employees (step st r)))"
proof (cases r)
  case (Create b)
  show ?thesis
  proof (cases "validated b")
    case None
    with Create assms show ?thesis by (simp add: create_employee_def with_body_state)
  next
    case (Some tb)
    with Create assms obtain i where "body_id tb = Some i"
      using validated_id_absent [of b tb] by auto
    with Some Create assms show ?thesis
      by (auto simp: create_employee_def with_body_accepted create_handler_explicit)
  qed
next
  case (Update ident b)
  show ?thesis
  proof (cases "validated b")
    case None
    with Update assms show ?thesis by (simp add: update_employee_def with_body_state)
  next
    case (Some tb)
    with Update assms update_handler_result [of st ident tb] show ?thesis
      by (auto simp: update_employee_def with_body_accepted ids_after_update)
  qed
next
  case (Delete ident)
  with assms delete_result [of st ident] distinct_without(1) [of emp_id "employees st"]
  show ?thesis by auto
qed

lemma auto_create_keeps_ids_distinct_iff:
  assumes "distinct (map emp_id (employees st))" "b ''id'' = None" "validated b = Some tb"
  shows "distinct (map emp_id (employees (step st (Create b))))
           \<longleftrightarrow> nextId st \<notin> emp_id ` set (employees st)"
proof -
  from assms have "body_id tb = None" using validated_id_absent [of b tb] by simp
  with assms created_auto [of b tb st] show ?thesis by auto
qed

text \<open>
  In a store whose ids are distinct a delete removes the record with the id, returns it,
  and a read of the same id afterwards finds nothing.
\<close>

lemma delete_then_get:
  assumes "distinct (map emp_id (employees st))" "digits_only ident"
    and "e \<in> set (employees st)" "emp_id e = parseInt ident"
  shows "\<exists>k < length (employees st). employees st ! k = e
           \<and> delete_employee st ident =
               (\<lparr> status = 200, success = True, message = ''Employee deleted successfully'',
                  data = Some e \<rparr>,
                st\<lparr> employees := take k (employees st) @ drop (Suc k) (employees st) \<rparr>)
           \<and> get_employee (snd (delete_employee st ident)) ident =
               \<lparr> status = 404, success = False, message = ''Employee not found'', data = None \<rparr>"
proof -
  from first_with_id [OF assms(3,4)] obtain k where k: "k < length (employees st)"
    "emp_id (employees st ! k) = parseInt ident"
    "\<forall>j<k. emp_id (employees st ! j) \<noteq> parseInt ident"
    by blast
  from same_id_same_record [OF assms(1,3) k(1)] k(2) assms(4)
  have e: "employees st ! k = e" by simp
  from delete_found [OF assms(2) k] e
  have d: "delete_employee st ident =
               (\<lparr> status = 200, success = True, message = ''Employee deleted successfully'',
                  data = Some e \<rparr>,
                st\<lparr> employees := take k (employees st) @ drop (Suc k) (employees st) \<rparr>)"
    by simp
  from distinct_without(2) [OF assms(1) k(1)] k(2)
  have "\<forall>x \<in> set (take k (employees st) @ drop (Suc k) (employees st)).
          emp_id x \<noteq> parseInt ident"
    by force
  then have "get_employee (snd (delete_employee st ident)) ident = not_found"
    using d assms(2) by (intro get_absent) simp_all
  with d e k(1) show ?thesis by (auto simp: not_found_def)
qed

section \<open>The claims\<close>

text \<open>
  Claim C1 fails on the code. The create handler looks for an existing record with the
  id only when the request supplies one; an id taken from the counter is not checked. After
  a create with the explicit id 1 on the empty store the counter is still 1, and the next
  create without an id stores a second record with the id 1. (All other requests keep the
  ids distinct: \<open>other_requests_keep_ids_distinct\<close>.)
\<close>

theorem auto_id_repeats_explicit_id:
  "map emp_id (employees (run
     [Create (obj [(''id'', JNum 1), (''name'', JStr ''Ann''), (''age'', JNum 30)]),
      Create (obj [(''name'', JStr ''Bob''), (''age'', JNum 41)])])) = [1, 1]"
  by code_simp















text \<open>
  Claim C8 fails on the code in a store that holds an id twice, which the run above
  produces: the delete of id 1 succeeds and returns the first record, and the read of id 1
  that follows finds the second one instead of answering 404. (In a store whose ids are
  distinct the claim holds: \<open>delete_then_get\<close>.)
\<close>

theorem deleted_id_still_found:
  "fst (delete_employee (run
     [Create (obj [(''id'', JNum 1), (''name'', JStr ''Ann''), (''age'', JNum 30)]),
      Create (obj [(''name'', JStr ''Bob''), (''age'', JNum 41)])]) ''1'')
     = \<lparr> status = 200, success = True, message = ''Employee deleted successfully'',
         data = Some \<lparr> emp_id = 1, emp_name = ''Ann'', emp_age = 30 \<rparr> \<rparr>
   \<and> get_employee (snd (delete_employee (run
     [Create (obj [(''id'', JNum 1), (''name'', JStr ''Ann''), (''age'', JNum 30)]),
      Create (obj [(''name'', JStr ''Bob''), (''age'', JNum 41)])]) ''1'')) ''1''
     = \<lparr> status = 200, success = True, message = ''Employee retrieved successfully'',
         data = Some \<lparr> emp_id = 1, emp_name = ''Bob'', emp_age = 41 \<rparr> \<rparr>"
  by code_simp

text \<open>
  Claim C9. For every store, \<open>reset\<close> leaves no record and the counter at 1, so the
  first create request without an id after it gives a record with the id 1.
\<close>

theorem reset_restarts_ids:
  "reset st = \<lparr> employees = [], nextId = 1 \<rparr>
   \<and> (b ''id'' = None \<and> validated b = Some tb \<longrightarrow>
        create_employee (reset st) b =
          (\<lparr> status = 201, success = True, message = ''Employee created successfully'',
             data = Some \<lparr> emp_id = 1, emp_name = body_name tb, emp_age = body_age tb \<rparr> \<rparr>,
           \<lparr> employees = [\<lparr> emp_id = 1, emp_name = body_name tb, emp_age = body_age tb \<rparr>],
             nextId = 2 \<rparr>))"
proof (intro conjI impI)
  show r: "reset st = \<lparr> employees = [], nextId = 1 \<rparr>"
    by (simp add: reset_def)
  assume h: "b ''id'' = None \<and> validated b = Some tb"
  then have "body_id tb = None" using validated_id_absent [of b tb] by simp
  with h created_auto [of b tb "reset st"] r
  show "create_employee (reset st) b =
          (\<lparr> status = 201, success = True, message = ''Employee created successfully'',
             data = Some \<lparr> emp_id = 1, emp_name = body_name tb, emp_age = body_age tb \<rparr> \<rparr>,
           \<lparr> employees = [\<lparr> emp_id = 1, emp_name = body_name tb, emp_age = body_age tb \<rparr>],
             nextId = 2 \<rparr>)"
    by simp
qed

theorem reset_restarts_ids_witness:
  "create_employee
     (reset \<lparr> employees = [\<lparr> emp_id = 8, emp_name = ''Ann'', emp_age = 30 \<rparr>], nextId = 9 \<rparr>)
     (obj [(''name'', JStr ''Bob''), (''age'', JNum 41)]) =
     (\<lparr> status = 201, success = True, message = ''Employee created successfully'',
        data = Some \<lparr> emp_id = 1, emp_name = ''Bob'', emp_age = 41 \<rparr> \<rparr>,
      \<lparr> employees = [\<lparr> emp_id = 1, emp_name = ''Bob'', emp_age = 41 \<rparr>], nextId = 2 \<rparr>)"
proof -
  have v: "validated (obj [(''name'', JStr ''Bob''), (''age'', JNum 41)])
      = Some \<lparr> body_id = None, body_name = ''Bob'', body_age = 41 \<rparr>"
    by code_simp
  show ?thesis
    using v reset_restarts_ids [of
        "\<lparr> employees = [\<lparr> emp_id = 8, emp_name = ''Ann'', emp_age = 30 \<rparr>], nextId = 9 \<rparr>"
        "obj [(''name'', JStr ''Bob''), (''age'', JNum 41)]"
        "\<lparr> body_id = None, body_name = ''Bob'', body_age = 41 \<rparr>"]
    by (simp add: obj_def reset_def)
qed



end
